theory Spec2Isabelle
  imports Complex_Main "HOL-Library.Word"
begin

section \<open>The Whisper bridge of ConversationGuard (whisper\_jni.cpp)\<close>

text \<open>
  The bridge is one C++ translation unit with a global context pointer \<open>g_ctx\<close>, a
  helper \<open>jstring_to_utf8\<close>, a helper \<open>choose_num_threads\<close> and the three JNI entry
  points \<open>nativeInit\<close>, \<open>nativeRelease\<close> and \<open>nativeProcess\<close>. The speech engine
  (whisper.h) and the Java runtime (jni.h) are outside the repository; they enter the
  model as parameters.
\<close>

subsection \<open>Machine integers\<close>

text \<open>
  \<open>jint\<close>, \<open>int\<close> and \<open>unsigned int\<close> are 32 bits wide, \<open>jshort\<close> is 16 bits wide.
  A word is read unsigned with \<open>unat\<close> and as two's complement with \<open>sint\<close>.
\<close>

type_synonym jint = "32 word"
type_synonym jshort = "16 word"
type_synonym c_uint = "32 word"

subsection \<open>choose\_num\_threads\<close>

text \<open>
  The argument is the value that \<open>std::thread::hardware_concurrency()\<close> returned, an
  \<open>unsigned int\<close>. The local \<open>t\<close> is \<open>static_cast<int>(hw)\<close>: the same 32 bits read
  as two's complement. After the cast the code works on \<open>t\<close> only, with constants 2 and
  4, so no further wrap-around can occur and \<open>t\<close> is kept as an integer.
\<close>

definition choose_num_threads :: "c_uint \<Rightarrow> int" where
  "choose_num_threads hardware_concurrency =
     (let hw = hardware_concurrency;
          hw = (if hw = 0 then 2 else hw);
          t = sint hw;
          t = (if t < 2 then 2 else t);
          t = (if t > 4 then 4 else t)
      in t)"

text \<open>The clamp of the specification, on the unsigned value that was reported.\<close>

definition clamp_2_4 :: "c_uint \<Rightarrow> int" where
  "clamp_2_4 hw = max 2 (min 4 (uint hw))"

subsection \<open>Single-precision arithmetic\<close>

text \<open>
  A \<open>float\<close> is an IEEE 754 binary32 number. A finite one is modelled by the rational
  it denotes; \<open>None\<close> stands for the values that are not finite numbers (the infinities
  and NaN), which the model does not follow further. Results are rounded to the nearest
  representable number, ties to the even significand. The zero that arises in the
  bridge is the quotient of the integer 0 by a positive constant, a positive zero, so
  the sign of zero is not represented.

  A binary32 number has a 24-bit significand and an exponent from \<open>-126\<close> to \<open>127\<close>:
  a number \<open>x\<close> with \<open>2 ^ e \<le> \<bar>x\<bar> < 2 ^ (e + 1)\<close> is a multiple of \<open>2 ^ (e - 23)\<close>,
  and below \<open>2 ^ -126\<close> the spacing stays \<open>2 ^ -149\<close> (subnormal numbers). A rounded
  magnitude of \<open>2 ^ 128\<close> is the overflow to infinity.
\<close>

type_synonym c_float = "rat option"

definition round_half_even :: "rat \<Rightarrow> int" where
  "round_half_even r =
     (let f = \<lfloor>r\<rfloor>; d = r - of_int f
      in if d < 1 / 2 then f
         else if 1 / 2 < d then f + 1
         else if even f then f else f + 1)"

text \<open>The largest exponent \<open>e\<close> from \<open>-125\<close> up to \<open>k - 126\<close> with \<open>2 ^ e \<le> x\<close>, or \<open>-126\<close>.\<close>

fun binary32_exponent :: "nat \<Rightarrow> rat \<Rightarrow> int" where
  "binary32_exponent 0 x = - 126"
| "binary32_exponent (Suc k) x =
     (if 2 powi (int k - 125) \<le> x then int k - 125 else binary32_exponent k x)"

definition round_binary32 :: "rat \<Rightarrow> c_float" where
  "round_binary32 x =
     (if x = 0 then Some 0
      else let e = binary32_exponent 253 \<bar>x\<bar>;
               q = 2 powi (e - 23);
               y = of_int (round_half_even (x / q)) * q
           in if 2 ^ 128 \<le> \<bar>y\<bar> then None else Some y)"

text \<open>The conversion of an \<open>int\<close> to \<open>float\<close>, and the division of two floats.\<close>

definition int_to_float :: "int \<Rightarrow> c_float" where
  "int_to_float i = round_binary32 (of_int i)"

fun float_div :: "c_float \<Rightarrow> c_float \<Rightarrow> c_float" where
  "float_div (Some a) (Some b) = (if b = 0 then None else round_binary32 (a / b))"
| "float_div _ _ = None"

text \<open>The value \<open>s / 32768.0\<close> of the specification, as an exact rational.\<close>

definition normalized :: "jshort \<Rightarrow> rat" where
  "normalized s = of_int (sint s) / 32768"

subsection \<open>The Java runtime\<close>

text \<open>
  A \<open>jstring\<close> or \<open>jshortArray\<close> is a reference: \<open>None\<close> is the null reference, and
  a string is given by the bytes of its modified UTF-8 form, which contain no zero
  byte, so that the C string read from them is the same list. The runtime may fail to
  hand out the characters of a string or the elements of an array (it then returns a
  null pointer); the two flags say whether it does. \<open>hardware_concurrency\<close> is what
  \<open>std::thread::hardware_concurrency()\<close> reports on the platform. The construction of
  the result string by \<open>NewStringUTF\<close> and the allocation of the \<open>std::vector\<close> are
  taken to succeed in \<open>nativeProcess\<close>; \<open>nativeProcess_jni\<close> further down has both as
  part of its input.
\<close>

type_synonym jstring = "string option"
type_synonym jshortArray = "jshort list option"

record runtime =
  utf_chars_available :: bool
  array_elements_available :: bool
  hardware_concurrency :: c_uint

definition GetStringUTFChars :: "runtime \<Rightarrow> string \<Rightarrow> string option" where
  "GetStringUTFChars env js = (if utf_chars_available env then Some js else None)"

definition NewStringUTF :: "string \<Rightarrow> jstring" where
  "NewStringUTF bytes = Some bytes"

definition GetShortArrayElements :: "runtime \<Rightarrow> jshort list \<Rightarrow> jshort list option" where
  "GetShortArrayElements env arr = (if array_elements_available env then Some arr else None)"

text \<open>
  Releasing the elements with mode 0 or \<open>JNI_COMMIT\<close> copies the buffer back into the
  array; \<open>JNI_ABORT\<close> frees the buffer and leaves the array as it is.
\<close>

datatype release_mode = JNI_COPY_BACK | JNI_COMMIT | JNI_ABORT

definition ReleaseShortArrayElements ::
  "jshort list \<Rightarrow> jshort list \<Rightarrow> release_mode \<Rightarrow> jshort list" where
  "ReleaseShortArrayElements arr buf mode = (if mode = JNI_ABORT then arr else buf)"

subsection \<open>The speech engine\<close>

text \<open>
  The engine is opaque. A context of type \<open>'ctx\<close> is the state behind a
  \<open>whisper_context\<close> pointer; loading returns \<open>None\<close> for a null pointer;
  \<open>whisper_full\<close> returns its code together with the context as the run left it; the
  text of a segment is \<open>None\<close> for a null pointer. The parameter structure has the
  fields that the bridge sets, and whatever else the engine keeps in it (\<open>'p\<close>).
\<close>

datatype whisper_sampling_strategy = WHISPER_SAMPLING_GREEDY | WHISPER_SAMPLING_BEAM_SEARCH

record whisper_full_params =
  strategy :: whisper_sampling_strategy
  n_threads :: int
  offset_ms :: int
  duration_ms :: int
  translate :: bool
  no_context :: bool
  single_segment :: bool
  print_special :: bool
  print_progress :: bool
  print_realtime :: bool
  print_timestamps :: bool

record ('ctx, 'p) whisper_engine =
  whisper_init_from_file :: "string \<Rightarrow> 'ctx option"
  whisper_full_default_params :: "whisper_sampling_strategy \<Rightarrow> 'p whisper_full_params_scheme"
  whisper_full ::
    "'ctx \<Rightarrow> 'p whisper_full_params_scheme \<Rightarrow> c_float list \<Rightarrow> jint \<Rightarrow> int \<times> 'ctx"
  whisper_full_n_segments :: "'ctx \<Rightarrow> int"
  whisper_full_get_segment_text :: "'ctx \<Rightarrow> int \<Rightarrow> string option"

text \<open>
  The calls that change the engine are recorded, in order, next to the global context:
  the record is what an observer of the engine sees of the bridge.
\<close>

datatype ('ctx, 'p) engine_call =
    Whisper_free 'ctx
  | Whisper_init_from_file string
  | Whisper_full 'ctx "'p whisper_full_params_scheme" "c_float list" jint

record ('ctx, 'p) bridge =
  g_ctx :: "'ctx option"
  calls :: "('ctx, 'p) engine_call list"

subsection \<open>jstring\_to\_utf8\<close>

definition jstring_to_utf8 :: "runtime \<Rightarrow> jstring \<Rightarrow> string" where
  "jstring_to_utf8 env js =
     (case js of
        None \<Rightarrow> []
      | Some chars \<Rightarrow>
          (case GetStringUTFChars env chars of
             None \<Rightarrow> []
           | Some utf \<Rightarrow> utf))"

subsection \<open>nativeInit and nativeRelease\<close>

text \<open>
  The entry points hold \<open>g_mutex\<close> from entry to return; the model is the sequential
  behaviour of one call. Log lines, and \<open>whisper_print_system_info\<close> whose result is
  only logged, are left out.
\<close>

definition nativeInit ::
  "('ctx, 'p) whisper_engine \<Rightarrow> runtime \<Rightarrow> ('ctx, 'p) bridge \<Rightarrow> jstring
     \<Rightarrow> bool \<times> ('ctx, 'p) bridge" where
  "nativeInit eng env st jModelPath =
     (let st = (case g_ctx st of
                  Some old \<Rightarrow> st\<lparr>g_ctx := None, calls := calls st @ [Whisper_free old]\<rparr>
                | None \<Rightarrow> st)
      in if jModelPath = None then (False, st)
         else let modelPath = jstring_to_utf8 env jModelPath
              in if modelPath = [] then (False, st)
                 else let st = st\<lparr>g_ctx := whisper_init_from_file eng modelPath,
                                    calls := calls st @ [Whisper_init_from_file modelPath]\<rparr>
                      in if g_ctx st = None then (False, st) else (True, st))"

definition nativeRelease :: "('ctx, 'p) bridge \<Rightarrow> ('ctx, 'p) bridge" where
  "nativeRelease st =
     (case g_ctx st of
        Some old \<Rightarrow> st\<lparr>g_ctx := None, calls := calls st @ [Whisper_free old]\<rparr>
      | None \<Rightarrow> st)"

subsection \<open>nativeProcess\<close>

text \<open>
  The pinned elements are a buffer of as many shorts as the array has. The conversion
  loop reads \<open>buf[i]\<close> for every \<open>i\<close> below \<open>n_samples\<close>; a read past the end of the
  buffer has no defined behaviour and is the fault \<open>OutOfBoundsRead\<close>. The fault
  \<open>BadAlloc\<close> is the exception \<open>std::bad_alloc\<close> leaving the entry point; it arises only
  in \<open>nativeProcess_jni\<close> below.
\<close>

datatype fault = OutOfBoundsRead | BadAlloc

function convert_loop ::
  "jshort list \<Rightarrow> nat \<Rightarrow> nat \<Rightarrow> c_float list \<Rightarrow> fault + c_float list" where
  "convert_loop buf n_samples i pcm =
     (if i < n_samples then
        (if i < length buf
         then convert_loop buf n_samples (i + 1)
                (pcm[i := float_div (int_to_float (sint (buf ! i))) (Some 32768)])
         else Inl OutOfBoundsRead)
      else Inr pcm)"
  by pat_completeness auto
termination
  by (relation "measure (\<lambda>(buf, n_samples, i, pcm). n_samples - i)") auto

text \<open>The loop over the segments, with the contents of the \<open>ostringstream\<close>.\<close>

function segment_loop ::
  "('ctx, 'p) whisper_engine \<Rightarrow> 'ctx \<Rightarrow> int \<Rightarrow> int \<Rightarrow> string \<Rightarrow> string" where
  "segment_loop eng ctx n_segments i oss =
     (if i < n_segments then
        segment_loop eng ctx n_segments (i + 1)
          (case whisper_full_get_segment_text eng ctx i of
             None \<Rightarrow> oss
           | Some chars \<Rightarrow>
               if chars \<noteq> [] then (if i > 0 then oss @ '' '' else oss) @ chars else oss)
      else oss)"
  by pat_completeness auto
termination
  by (relation "measure (\<lambda>(eng, ctx, n_segments, i, oss). nat (n_segments - i))") auto

text \<open>
  The result is the returned reference or a fault, the bridge after the call, and the
  contents of the caller's array after the call.
\<close>

definition nativeProcess ::
  "('ctx, 'p) whisper_engine \<Rightarrow> runtime \<Rightarrow> ('ctx, 'p) bridge \<Rightarrow> jshortArray \<Rightarrow> jint
     \<Rightarrow> (fault + jstring) \<times> ('ctx, 'p) bridge \<times> jshortArray" where
  "nativeProcess eng env st jPcm length_arg =
     (case g_ctx st of
        None \<Rightarrow> (Inr (NewStringUTF []), st, jPcm)
      | Some ctx \<Rightarrow>
          (case jPcm of
             None \<Rightarrow> (Inr (NewStringUTF []), st, jPcm)
           | Some arr \<Rightarrow>
               if sint length_arg \<le> 0 then (Inr (NewStringUTF []), st, jPcm)
               else
                 let n_samples = nat (sint length_arg);
                     pcm = replicate n_samples (Some 0)
                 in case GetShortArrayElements env arr of
                      None \<Rightarrow> (Inr (NewStringUTF []), st, jPcm)
                    | Some buf \<Rightarrow>
                        (case convert_loop buf n_samples 0 pcm of
                           Inl f \<Rightarrow> (Inl f, st, jPcm)
                         | Inr pcm \<Rightarrow>
                             let arr = ReleaseShortArrayElements arr buf JNI_ABORT;
                                 wparams = whisper_full_default_params eng WHISPER_SAMPLING_GREEDY;
                                 wparams = wparams\<lparr>print_realtime := False\<rparr>;
                                 wparams = wparams\<lparr>print_progress := False\<rparr>;
                                 wparams = wparams\<lparr>print_timestamps := False\<rparr>;
                                 wparams = wparams\<lparr>print_special := False\<rparr>;
                                 wparams = wparams\<lparr>translate := False\<rparr>;
                                 wparams = wparams\<lparr>no_context := True\<rparr>;
                                 wparams = wparams\<lparr>single_segment := False\<rparr>;
                                 threads = choose_num_threads (hardware_concurrency env);
                                 wparams = wparams\<lparr>n_threads := threads\<rparr>;
                                 wparams = wparams\<lparr>offset_ms := 0\<rparr>;
                                 wparams = wparams\<lparr>duration_ms := 0\<rparr>;
                                 (ret, ctx') = whisper_full eng ctx wparams pcm length_arg;
                                 st = st\<lparr>g_ctx := Some ctx',
                                          calls := calls st @ [Whisper_full ctx wparams pcm length_arg]\<rparr>
                             in if ret \<noteq> 0 then (Inr (NewStringUTF []), st, Some arr)
                                else
                                  let n_segments = whisper_full_n_segments eng ctx';
                                      result = segment_loop eng ctx' n_segments 0 []
                                  in (Inr (NewStringUTF result), st, Some arr))))"

subsection \<open>nativeProcess with the resources of the runtime\<close>





subsection \<open>What the specification says, and what the bridge hands to the engine\<close>

text \<open>
  The parameter structure that \<open>nativeProcess\<close> builds, and the float buffer that the
  specification asks for: the first \<open>length\<close> samples, each divided by 32768.
\<close>

definition process_wparams ::
  "('ctx, 'p) whisper_engine \<Rightarrow> runtime \<Rightarrow> 'p whisper_full_params_scheme" where
  "process_wparams eng env =
     (whisper_full_default_params eng WHISPER_SAMPLING_GREEDY)
       \<lparr>print_realtime := False, print_progress := False, print_timestamps := False,
        print_special := False, translate := False, no_context := True,
        single_segment := False,
        n_threads := choose_num_threads (hardware_concurrency env),
        offset_ms := 0, duration_ms := 0\<rparr>"

definition process_pcm :: "jshort list \<Rightarrow> jint \<Rightarrow> c_float list" where
  "process_pcm arr length_arg =
     map (\<lambda>s. Some (normalized s)) (take (nat (sint length_arg)) arr)"


text \<open>
  The transcript of the specification: the texts that are neither null nor empty, in
  order, with one space between consecutive ones.
\<close>

fun join_with_space :: "string list \<Rightarrow> string" where
  "join_with_space [] = []"
| "join_with_space [t] = t"
| "join_with_space (t # ts) = t @ '' '' @ join_with_space ts"

definition spec_transcript :: "string option list \<Rightarrow> string" where
  "spec_transcript texts =
     join_with_space
       (filter (\<lambda>t. t \<noteq> [])
          (map (\<lambda>text. case text of None \<Rightarrow> [] | Some chars \<Rightarrow> chars) texts))"

text \<open>What one round of the segment loop appends to the stream.\<close>

definition segment_piece :: "('ctx, 'p) whisper_engine \<Rightarrow> 'ctx \<Rightarrow> int \<Rightarrow> string" where
  "segment_piece eng ctx i =
     (case whisper_full_get_segment_text eng ctx i of
        None \<Rightarrow> []
      | Some chars \<Rightarrow> if chars \<noteq> [] then (if i > 0 then '' '' else []) @ chars else [])"

subsection \<open>A scripted engine for concrete runs\<close>

text \<open>
  The context of this engine is the list of segment texts it reports. Loading succeeds
  for the path \<open>model.bin\<close> only; a transcription returns the code \<open>ret\<close> and leaves
  the texts \<open>segments\<close>. The runtime hands out characters and elements and reports
  eight execution units.
\<close>

definition scripted_engine ::
  "int \<Rightarrow> string option list \<Rightarrow> (string option list, unit) whisper_engine" where
  "scripted_engine ret segments =
     \<lparr>whisper_init_from_file = (\<lambda>path. if path = ''model.bin'' then Some [] else None),
      whisper_full_default_params =
        (\<lambda>s. \<lparr>strategy = s, n_threads = 1, offset_ms = 0, duration_ms = 0,
               translate = True, no_context = False, single_segment = True,
               print_special = True, print_progress = True, print_realtime = True,
               print_timestamps = True\<rparr>),
      whisper_full = (\<lambda>ctx wparams pcm n. (ret, segments)),
      whisper_full_n_segments = (\<lambda>ctx. int (length ctx)),
      whisper_full_get_segment_text =
        (\<lambda>ctx i. if 0 \<le> i \<and> i < int (length ctx) then ctx ! nat i else None)\<rparr>"

definition cooperative_runtime :: runtime where
  "cooperative_runtime =
     \<lparr>utf_chars_available = True, array_elements_available = True, hardware_concurrency = 8\<rparr>"

definition idle_bridge :: "(string option list, unit) bridge" where
  "idle_bridge = \<lparr>g_ctx = None, calls = []\<rparr>"

definition loaded_bridge :: "(string option list, unit) bridge" where
  "loaded_bridge = \<lparr>g_ctx = Some [Some ''old''], calls = []\<rparr>"




declare convert_loop.simps [simp del]
declare segment_loop.simps [simp del]

section \<open>Exactness of the sample conversion\<close>

lemma round_half_even_of_int: "round_half_even (of_int m) = m"
  by (simp add: round_half_even_def)

lemma binary32_exponent_upper:
  assumes "x < 2 powi (E + 1)" and "- 126 \<le> E"
  shows "binary32_exponent k x \<le> E"
proof (induction k)
  case 0
  show ?case using assms(2) by simp
next
  case (Suc k)
  show ?case
  proof (cases "2 powi (int k - 125) \<le> x")
    case True
    have "\<not> E + 1 \<le> int k - 125"
    proof
      assume "E + 1 \<le> int k - 125"
      then have "(2 :: rat) powi (E + 1) \<le> 2 powi (int k - 125)"
        by (rule power_int_increasing) simp
      with True assms(1) show False by simp
    qed
    with True show ?thesis by simp
  next
    case False
    with Suc show ?thesis by simp
  qed
qed

text \<open>
  A number \<open>n / 2 ^ k\<close> of magnitude below \<open>2 ^ (E + 1)\<close> is a multiple of the spacing
  \<open>2 ^ (e - 23)\<close> at its exponent \<open>e \<le> E\<close> as soon as \<open>E + k \<le> 23\<close>: rounding leaves
  it as it is.
\<close>

lemma round_binary32_dyadic:
  fixes n :: int and k :: nat
  assumes x: "x = of_int n / 2 ^ k"
    and small: "\<bar>x\<bar> < 2 powi (E + 1)"
    and E: "- 126 \<le> E" "E + int k \<le> 23" "E < 127"
  shows "round_binary32 x = Some x"
proof (cases "x = 0")
  case True
  then show ?thesis by (simp add: round_binary32_def)
next
  case False
  define e where "e = binary32_exponent 253 \<bar>x\<bar>"
  define q :: rat where "q = 2 powi (e - 23)"
  have e_le: "e \<le> E" unfolding e_def using small E(1) by (rule binary32_exponent_upper)
  define j where "j = nat (23 - e - int k)"
  have j: "int j = 23 - e - int k" unfolding j_def using e_le E(2) by simp
  have q_pos: "0 < q" unfolding q_def by (simp add: power_int_def)
  have je: "int j = - (e - 23) + - int k" using j by simp
  have "(2 :: rat) ^ j = 2 powi (int j)" by (simp add: power_int_of_nat)
  also have "\<dots> = 2 powi (- (e - 23) + - int k)" by (simp only: je)
  also have "\<dots> = 2 powi (- (e - 23)) * 2 powi (- int k)"
    by (rule power_int_add) simp
  also have "\<dots> = inverse q / 2 ^ k"
    unfolding q_def by (simp only: power_int_minus power_int_of_nat divide_inverse)
  finally have pw: "(2 :: rat) ^ j = inverse q / 2 ^ k" .
  have "x / q = of_int n * (inverse q / 2 ^ k)" by (simp add: x divide_inverse)
  also have "\<dots> = of_int (n * 2 ^ j)" by (simp add: pw [symmetric])
  finally have xq: "x / q = of_int (n * 2 ^ j)" .
  have "of_int (round_half_even (x / q)) * q = x / q * q"
    unfolding xq round_half_even_of_int ..
  also have "\<dots> = x" using q_pos by simp
  finally have y: "of_int (round_half_even (x / q)) * q = x" .
  have "\<bar>x\<bar> < 2 powi (E + 1)" by (rule small)
  also have "\<dots> \<le> (2 :: rat) powi 128"
    using E(3) by (intro power_int_increasing) auto
  finally have "\<bar>x\<bar> < 2 ^ 128" by (simp add: power_int_def)
  then show ?thesis
    using False y by (simp add: round_binary32_def Let_def e_def [symmetric] q_def [symmetric])
qed

lemma sint_jshort_range: "- 32768 \<le> sint (s :: jshort) \<and> sint s < 32768"
  using sint_ge [of s] sint_lt [of s] by simp

lemma rat_of_jshort_bound: "\<bar>of_int (sint (s :: jshort)) :: rat\<bar> < 65536"
proof -
  have "\<bar>sint s\<bar> < 65536" using sint_jshort_range [of s] by linarith
  then have "\<bar>of_int (sint s) :: rat\<bar> < of_int 65536"
    unfolding of_int_abs [symmetric] by (simp only: of_int_less_iff)
  then show ?thesis by simp
qed

lemma int_to_float_jshort: "int_to_float (sint (s :: jshort)) = Some (of_int (sint s))"
proof -
  let ?x = "of_int (sint s) :: rat"
  have "\<bar>?x\<bar> < 2 powi (15 + 1)" using rat_of_jshort_bound [of s] by (simp add: power_int_def)
  then have "round_binary32 ?x = Some ?x"
    by (intro round_binary32_dyadic [where k = 0 and E = 15 and n = "sint s"]) simp_all
  then show ?thesis by (simp add: int_to_float_def)
qed

lemma sample_division_exact:
  "float_div (int_to_float (sint (s :: jshort))) (Some 32768) = Some (normalized s)"
proof -
  let ?x = "of_int (sint s) / 32768 :: rat"
  have "\<bar>?x\<bar> < 2 powi (1 + 1)" using rat_of_jshort_bound [of s] by (simp add: power_int_def)
  then have "round_binary32 ?x = Some ?x"
    by (intro round_binary32_dyadic [where k = 15 and E = 1 and n = "sint s"]) simp_all
  then show ?thesis by (simp add: int_to_float_jshort normalized_def)
qed

section \<open>The two loops\<close>

lemma convert_loop_in_bounds:
  "i \<le> n \<Longrightarrow> n \<le> length buf \<Longrightarrow> length pcm = n \<Longrightarrow>
   convert_loop buf n i pcm
     = Inr (take i pcm @ map (\<lambda>s. Some (normalized s)) (drop i (take n buf)))"
proof (induction buf n i pcm rule: convert_loop.induct)
  case (1 buf n i pcm)
  show ?case
  proof (cases "i < n")
    case True
    let ?v = "float_div (int_to_float (sint (buf ! i))) (Some 32768)"
    have v: "?v = Some (normalized (buf ! i))" by (rule sample_division_exact)
    have i_buf: "i < length buf" using True "1.prems" by simp
    have "convert_loop buf n i pcm = convert_loop buf n (i + 1) (pcm[i := ?v])"
      using True i_buf by (subst convert_loop.simps) simp
    also have "\<dots> = Inr (take (i + 1) (pcm[i := ?v])
                 @ map (\<lambda>s. Some (normalized s)) (drop (i + 1) (take n buf)))"
      using True i_buf "1.prems" by (intro "1.IH") simp_all
    also have "take (i + 1) (pcm[i := ?v]) = take i pcm @ [?v]"
      using True "1.prems" by (simp add: take_Suc_conv_app_nth)
    also have "drop (i + 1) (take n buf) = tl (drop i (take n buf))"
      by (simp add: drop_Suc tl_drop)
    finally show ?thesis
      using True i_buf "1.prems" v
      by (simp add: Cons_nth_drop_Suc [symmetric, of i "take n buf"])
  next
    case False
    then have "i = n" using "1.prems" by simp
    then show ?thesis using "1.prems" by (subst convert_loop.simps) simp
  qed
qed


lemma segment_loop_pieces:
  "segment_loop eng ctx n i oss = oss @ concat (map (segment_piece eng ctx) [i..n - 1])"
proof (induction eng ctx n i oss rule: segment_loop.induct)
  case (1 eng ctx n i oss)
  show ?case
  proof (cases "i < n")
    case True
    then have range: "[i..n - 1] = i # [i + 1..n - 1]" by (simp add: upto_rec1)
    let ?oss = "(case whisper_full_get_segment_text eng ctx i of
                   None \<Rightarrow> oss
                 | Some chars \<Rightarrow>
                     if chars \<noteq> [] then (if i > 0 then oss @ '' '' else oss) @ chars else oss)"
    have piece: "?oss = oss @ segment_piece eng ctx i"
      by (simp add: segment_piece_def split: option.splits)
    have "segment_loop eng ctx n i oss = segment_loop eng ctx n (i + 1) ?oss"
      using True by (subst segment_loop.simps) simp
    also have "\<dots> = ?oss @ concat (map (segment_piece eng ctx) [i + 1..n - 1])"
      using True by (rule "1.IH")
    finally show ?thesis by (simp only: piece range list.map concat.simps append_assoc)
  next
    case False
    then show ?thesis by (subst segment_loop.simps) simp
  qed
qed

lemma segment_loop_nonempty:
  assumes "0 \<le> i" and "i < n"
    and "whisper_full_get_segment_text eng ctx i = Some t" and "t \<noteq> []"
  shows "segment_loop eng ctx n 0 [] \<noteq> []"
proof -
  have "i \<in> set [0..n - 1]" using assms(1,2) by simp
  moreover have "segment_piece eng ctx i \<noteq> []"
    using assms(3,4) by (simp add: segment_piece_def)
  ultimately have "\<exists>p \<in> set (map (segment_piece eng ctx) [0..n - 1]). p \<noteq> []"
    by (intro bexI [of _ "segment_piece eng ctx i"]) simp_all
  then show ?thesis by (simp add: segment_loop_pieces)
qed

lemma segment_loop_no_segments: "n \<le> 0 \<Longrightarrow> segment_loop eng ctx n 0 oss = oss"
  by (subst segment_loop.simps) simp

lemma join_with_space_pieces:
  "join_with_space (t # filter (\<lambda>u. u \<noteq> []) us)
     = t @ concat (map (\<lambda>u. if u \<noteq> [] then '' '' @ u else []) us)"
proof (induction us arbitrary: t)
  case Nil
  show ?case by simp
next
  case (Cons u us)
  show ?case
  proof (cases "u = []")
    case True
    then show ?thesis using Cons.IH [of t] by simp
  next
    case False
    then show ?thesis using Cons.IH [of u] by simp
  qed
qed

text \<open>
  When the first segment that the engine reports has a text, the loop produces the
  transcript of the specification.
\<close>

lemma segment_loop_first_nonempty:
  assumes n: "0 < n"
    and first: "whisper_full_get_segment_text eng ctx 0 = Some t" "t \<noteq> []"
  shows "segment_loop eng ctx n 0 []
           = spec_transcript (map (whisper_full_get_segment_text eng ctx) [0..n - 1])"
proof -
  let ?val = "\<lambda>text. case text of None \<Rightarrow> [] | Some chars \<Rightarrow> chars"
  let ?sep = "\<lambda>u :: string. if u \<noteq> [] then '' '' @ u else []"
  have range: "[0..n - 1] = 0 # [1..n - 1]" using n by (simp add: upto_rec1)
  have later: "map (segment_piece eng ctx) [1..n - 1]
                 = map (\<lambda>i. ?sep (?val (whisper_full_get_segment_text eng ctx i))) [1..n - 1]"
    by (rule map_cong) (auto simp add: segment_piece_def split: option.splits)
  have "segment_loop eng ctx n 0 [] = segment_piece eng ctx 0
          @ concat (map (segment_piece eng ctx) [1..n - 1])"
    by (simp add: segment_loop_pieces range)
  also have "segment_piece eng ctx 0 = t" using first by (simp add: segment_piece_def)
  also have "t @ concat (map (segment_piece eng ctx) [1..n - 1])
               = join_with_space (t # filter (\<lambda>u. u \<noteq> [])
                   (map (\<lambda>i. ?val (whisper_full_get_segment_text eng ctx i)) [1..n - 1]))"
    by (simp add: later join_with_space_pieces comp_def)
  also have "\<dots> = spec_transcript (map (whisper_full_get_segment_text eng ctx) [0..n - 1])"
    using first by (simp add: spec_transcript_def range comp_def)
  finally show ?thesis .
qed

section \<open>The paths through nativeProcess\<close>

lemma nativeProcess_rejected:
  assumes "g_ctx st = None \<or> jPcm = None \<or> sint length_arg \<le> 0
           \<or> \<not> array_elements_available env"
  shows "nativeProcess eng env st jPcm length_arg = (Inr (Some []), st, jPcm)"
  using assms
  by (auto simp add: nativeProcess_def NewStringUTF_def GetShortArrayElements_def Let_def
      split: option.splits)

lemma nativeProcess_engine_run:
  assumes ctx: "g_ctx st = Some ctx"
    and pos: "0 < sint length_arg"
    and fits: "sint length_arg \<le> int (length arr)"
    and pin: "array_elements_available env"
    and run: "whisper_full eng ctx (process_wparams eng env) (process_pcm arr length_arg) length_arg
                = (ret, ctx')"
  shows "nativeProcess eng env st (Some arr) length_arg =
           (Inr (Some (if ret \<noteq> 0 then []
                       else segment_loop eng ctx' (whisper_full_n_segments eng ctx') 0 [])),
            st\<lparr>g_ctx := Some ctx',
               calls := calls st @ [Whisper_full ctx (process_wparams eng env)
                                      (process_pcm arr length_arg) length_arg]\<rparr>,
            Some arr)"
proof -
  let ?n = "nat (sint length_arg)"
  have n: "?n \<le> length arr" using fits by simp
  have "convert_loop arr ?n 0 (replicate ?n (Some 0))
          = Inr (take 0 (replicate ?n (Some 0))
                 @ map (\<lambda>s. Some (normalized s)) (drop 0 (take ?n arr)))"
    using n by (intro convert_loop_in_bounds) simp_all
  then have conv: "convert_loop arr ?n 0 (replicate ?n (Some 0)) = Inr (process_pcm arr length_arg)"
    by (simp add: process_pcm_def)
  show ?thesis
    using ctx pos pin run [unfolded process_wparams_def]
    by (simp add: nativeProcess_def GetShortArrayElements_def ReleaseShortArrayElements_def
        NewStringUTF_def conv Let_def process_wparams_def)
qed


lemma scripted_engine_run:
  "whisper_full (scripted_engine ret segments) ctx wparams pcm n = (ret, segments)"
  by (simp add: scripted_engine_def)

lemma loaded_bridge_valid:
  "g_ctx loaded_bridge = Some [Some ''old'']"
  "array_elements_available cooperative_runtime"
  "utf_chars_available cooperative_runtime"
  by (simp_all add: loaded_bridge_def cooperative_runtime_def)

section \<open>Thread count\<close>

lemma choose_num_threads_range: "2 \<le> choose_num_threads hw \<and> choose_num_threads hw \<le> 4"
  by (simp add: choose_num_threads_def Let_def)

lemma sint_eq_uint_small:
  fixes hw :: c_uint
  assumes "uint hw < 2 ^ 31"
  shows "sint hw = uint hw"
proof -
  have "- (2 ^ 31) \<le> (0 :: int)" by simp
  also have "0 \<le> uint hw" by simp
  finally have "signed_take_bit 31 (uint hw) = uint hw"
    using assms by (rule signed_take_bit_int_eq_self)
  then show ?thesis by (simp add: sint_uint)
qed

text \<open>
  Claim C4, as the specification states it, says that the thread count is the reported
  concurrency clamped to the range from 2 to 4, for every reported value. A reported
  value of \<open>2 ^ 31\<close> becomes negative under the cast to \<open>int\<close> and yields 2 threads,
  where the clamp of the reported value is 4.
\<close>

theorem choose_num_threads_clamp_counterexample:
  "choose_num_threads 2147483648 = 2 \<and> clamp_2_4 2147483648 = 4"
  by (simp add: choose_num_threads_def clamp_2_4_def)

text \<open>
  Claim C4, amended: for every reported hardware concurrency below \<open>2 ^ 31\<close> (a value
  that the cast to \<open>int\<close> keeps) the thread count is the reported value clamped to the
  closed range from 2 to 4, an unreported concurrency of 0 giving 2; in particular 0
  gives 2, 1 gives 2, 3 gives 3 and 16 gives 4. A call of \<open>nativeProcess\<close> that reaches
  the engine passes it this count in \<open>n_threads\<close>.
\<close>

theorem choose_num_threads_clamp:
  "(uint hw < 2 ^ 31 \<longrightarrow> choose_num_threads hw = clamp_2_4 hw)
   \<and> choose_num_threads 0 = 2
   \<and> choose_num_threads 1 = 2
   \<and> choose_num_threads 3 = 3
   \<and> choose_num_threads 16 = 4
   \<and> (g_ctx st = Some ctx \<and> 0 < sint length_arg \<and> sint length_arg \<le> int (length arr)
        \<and> array_elements_available env \<longrightarrow>
        (\<exists>wparams pcm.
           calls (fst (snd (nativeProcess eng env st (Some arr) length_arg)))
             = calls st @ [Whisper_full ctx wparams pcm length_arg]
           \<and> n_threads wparams = choose_num_threads (hardware_concurrency env)))"
proof -
  have "choose_num_threads hw = clamp_2_4 hw" if "uint hw < 2 ^ 31"
  proof (cases "hw = 0")
    case True
    then show ?thesis by (simp add: choose_num_threads_def clamp_2_4_def)
  next
    case False
    have "sint hw = uint hw" using that by (rule sint_eq_uint_small)
    with False show ?thesis
      by (simp add: choose_num_threads_def clamp_2_4_def Let_def max_def min_def)
  qed
  moreover have "choose_num_threads 0 = 2" "choose_num_threads 1 = 2"
    "choose_num_threads 3 = 3" "choose_num_threads 16 = 4"
    by (simp_all add: choose_num_threads_def)
  moreover have "\<exists>wparams pcm.
           calls (fst (snd (nativeProcess eng env st (Some arr) length_arg)))
             = calls st @ [Whisper_full ctx wparams pcm length_arg]
           \<and> n_threads wparams = choose_num_threads (hardware_concurrency env)"
    if ctx: "g_ctx st = Some ctx" and pos: "0 < sint length_arg"
      and fits: "sint length_arg \<le> int (length arr)" and pin: "array_elements_available env"
  proof -
    obtain ret ctx' where run:
      "whisper_full eng ctx (process_wparams eng env) (process_pcm arr length_arg) length_arg
         = (ret, ctx')"
      by (cases "whisper_full eng ctx (process_wparams eng env) (process_pcm arr length_arg)
                   length_arg") blast
    have "calls (fst (snd (nativeProcess eng env st (Some arr) length_arg)))
            = calls st @ [Whisper_full ctx (process_wparams eng env)
                            (process_pcm arr length_arg) length_arg]"
      by (simp add: nativeProcess_engine_run [OF ctx pos fits pin run])
    moreover have "n_threads (process_wparams eng env)
                     = choose_num_threads (hardware_concurrency env)"
      by (simp add: process_wparams_def)
    ultimately show ?thesis by blast
  qed
  ultimately show ?thesis by blast
qed

theorem choose_num_threads_clamp_witness:
  "uint (8 :: c_uint) < 2 ^ 31
   \<and> choose_num_threads 8 = 4
   \<and> (\<exists>wparams pcm.
         calls (fst (snd (nativeProcess (scripted_engine 0 []) cooperative_runtime
                            loaded_bridge (Some [0]) 1)))
           = [Whisper_full [Some ''old''] wparams pcm 1]
         \<and> n_threads wparams = 4)"
proof -
  have h: "uint (8 :: c_uint) < 2 ^ 31" "g_ctx loaded_bridge = Some [Some ''old'']"
    "0 < sint (1 :: jint)" "sint (1 :: jint) \<le> int (length [0 :: jshort])"
    "array_elements_available cooperative_runtime"
    by (simp_all add: loaded_bridge_valid)
  have hw: "hardware_concurrency cooperative_runtime = 8" "calls loaded_bridge = []"
    by (simp_all add: cooperative_runtime_def loaded_bridge_def)
  note inst = choose_num_threads_clamp [of 8 loaded_bridge "[Some ''old'']" 1 "[0]"
      cooperative_runtime "scripted_engine 0 []"]
  have "choose_num_threads 8 = clamp_2_4 8" using inst h(1) by blast
  moreover from inst h(2-5) have "\<exists>wparams pcm.
         calls (fst (snd (nativeProcess (scripted_engine 0 []) cooperative_runtime
                            loaded_bridge (Some [0]) 1)))
           = calls loaded_bridge @ [Whisper_full [Some ''old''] wparams pcm 1]
         \<and> n_threads wparams = choose_num_threads (hardware_concurrency cooperative_runtime)"
    by blast
  moreover have "clamp_2_4 8 = 4" by (simp add: clamp_2_4_def)
  ultimately show ?thesis using h(1) by (simp add: hw)
qed

section \<open>Initialisation\<close>

text \<open>
  Claim C2: \<open>nativeInit\<close> returns true exactly when the model path is not null, the
  path string \<open>modelPath\<close> is not empty and the engine's load routine returns a handle
  for it; whenever it returns false no context is installed afterwards, and when it
  returns true the installed context is the handle that was loaded. With a runtime that
  hands out the characters, \<open>modelPath\<close> is the contents of the Java string.
\<close>

theorem nativeInit_result:
  "(fst (nativeInit eng env st jModelPath) \<longleftrightarrow>
      jModelPath \<noteq> None \<and> jstring_to_utf8 env jModelPath \<noteq> []
      \<and> whisper_init_from_file eng (jstring_to_utf8 env jModelPath) \<noteq> None)
   \<and> (\<not> fst (nativeInit eng env st jModelPath) \<longrightarrow>
        g_ctx (snd (nativeInit eng env st jModelPath)) = None)
   \<and> (fst (nativeInit eng env st jModelPath) \<longrightarrow>
        g_ctx (snd (nativeInit eng env st jModelPath))
          = whisper_init_from_file eng (jstring_to_utf8 env jModelPath))
   \<and> (utf_chars_available env \<longrightarrow>
        jstring_to_utf8 env jModelPath = (case jModelPath of None \<Rightarrow> [] | Some path \<Rightarrow> path))"
  by (simp add: nativeInit_def Let_def jstring_to_utf8_def GetStringUTFChars_def
      split: option.splits)

theorem nativeInit_result_witness:
  "\<not> fst (nativeInit (scripted_engine 0 []) cooperative_runtime loaded_bridge
            (Some ''missing.bin''))
   \<and> g_ctx (snd (nativeInit (scripted_engine 0 []) cooperative_runtime loaded_bridge
            (Some ''missing.bin''))) = None
   \<and> fst (nativeInit (scripted_engine 0 []) cooperative_runtime idle_bridge (Some ''model.bin''))
   \<and> g_ctx (snd (nativeInit (scripted_engine 0 []) cooperative_runtime idle_bridge
            (Some ''model.bin''))) = Some []
   \<and> utf_chars_available cooperative_runtime"
  using nativeInit_result [of "scripted_engine 0 []" cooperative_runtime
      loaded_bridge "Some ''missing.bin''"]
    nativeInit_result [of "scripted_engine 0 []" cooperative_runtime
      idle_bridge "Some ''model.bin''"]
  by (simp add: scripted_engine_def cooperative_runtime_def)

text \<open>
  Claim C6: when a context is installed, the first thing \<open>nativeInit\<close> does to the
  engine is to free it, whatever the outcome of the call: the calls it makes are the
  free, followed by the load when the path is usable. When the call fails, no context
  is installed afterwards; with a null or empty path the bridge goes from the installed
  context to none, the free being the only call.
\<close>

theorem nativeInit_frees_previous:
  assumes "g_ctx st = Some old"
  shows "calls (snd (nativeInit eng env st jModelPath))
           = calls st @ Whisper_free old #
               (if jModelPath = None \<or> jstring_to_utf8 env jModelPath = [] then []
                else [Whisper_init_from_file (jstring_to_utf8 env jModelPath)])
       \<and> (\<not> fst (nativeInit eng env st jModelPath) \<longrightarrow>
            g_ctx (snd (nativeInit eng env st jModelPath)) = None)
       \<and> (jModelPath = None \<or> jstring_to_utf8 env jModelPath = [] \<longrightarrow>
            nativeInit eng env st jModelPath
              = (False, st\<lparr>g_ctx := None, calls := calls st @ [Whisper_free old]\<rparr>))"
  using assms by (simp add: nativeInit_def Let_def)

theorem nativeInit_frees_previous_witness:
  "g_ctx loaded_bridge = Some [Some ''old'']
   \<and> nativeInit (scripted_engine 0 []) cooperative_runtime loaded_bridge None
      = (False, \<lparr>g_ctx = None, calls = [Whisper_free [Some ''old'']]\<rparr>)
   \<and> nativeInit (scripted_engine 0 []) cooperative_runtime loaded_bridge (Some [])
      = (False, \<lparr>g_ctx = None, calls = [Whisper_free [Some ''old'']]\<rparr>)
   \<and> calls (snd (nativeInit (scripted_engine 0 []) cooperative_runtime loaded_bridge
        (Some ''missing.bin'')))
      = [Whisper_free [Some ''old''], Whisper_init_from_file ''missing.bin'']"
  using nativeInit_frees_previous [of loaded_bridge "[Some ''old'']"
      "scripted_engine 0 []" cooperative_runtime None]
    nativeInit_frees_previous [of loaded_bridge "[Some ''old'']"
      "scripted_engine 0 []" cooperative_runtime "Some []"]
    nativeInit_frees_previous [of loaded_bridge "[Some ''old'']"
      "scripted_engine 0 []" cooperative_runtime "Some ''missing.bin''"]
  by (simp add: loaded_bridge_def cooperative_runtime_def jstring_to_utf8_def
      GetStringUTFChars_def)

section \<open>Rejected calls of nativeProcess\<close>

text \<open>
  Claim C3: when no context is installed, or the sample array is null, or the length is
  not positive, \<open>nativeProcess\<close> returns the empty string and leaves the bridge as it
  was; in particular the record of engine calls is unchanged, so the transcription
  routine was not invoked. After \<open>nativeRelease\<close> no context is installed, so a call
  of \<open>nativeProcess\<close> that follows it returns the empty string.
\<close>

theorem nativeProcess_invalid_call:
  "(g_ctx st = None \<or> jPcm = None \<or> sint length_arg \<le> 0 \<longrightarrow>
      fst (nativeProcess eng env st jPcm length_arg) = Inr (Some [])
      \<and> fst (snd (nativeProcess eng env st jPcm length_arg)) = st
      \<and> calls (fst (snd (nativeProcess eng env st jPcm length_arg))) = calls st)
   \<and> g_ctx (nativeRelease st) = None
   \<and> fst (nativeProcess eng env (nativeRelease st) jPcm length_arg) = Inr (Some [])"
proof -
  have "nativeProcess eng env st jPcm length_arg = (Inr (Some []), st, jPcm)"
    if "g_ctx st = None \<or> jPcm = None \<or> sint length_arg \<le> 0"
    using that by (intro nativeProcess_rejected) blast
  moreover have released: "g_ctx (nativeRelease st) = None"
    by (simp add: nativeRelease_def split: option.splits)
  moreover have "nativeProcess eng env (nativeRelease st) jPcm length_arg
                   = (Inr (Some []), nativeRelease st, jPcm)"
    using released by (intro nativeProcess_rejected) blast
  ultimately show ?thesis by simp
qed

theorem nativeProcess_invalid_call_witness:
  "g_ctx idle_bridge = None
   \<and> fst (nativeProcess (scripted_engine 0 [Some ''hi'']) cooperative_runtime
           idle_bridge (Some [1, 2]) 2) = Inr (Some [])
   \<and> sint (0 :: jint) \<le> 0
   \<and> fst (nativeProcess (scripted_engine 0 [Some ''hi'']) cooperative_runtime
           loaded_bridge (Some [1, 2]) 0) = Inr (Some [])
   \<and> sint (- 1 :: jint) \<le> 0
   \<and> fst (nativeProcess (scripted_engine 0 [Some ''hi'']) cooperative_runtime
           loaded_bridge (Some [1, 2]) (- 1)) = Inr (Some [])
   \<and> calls (fst (snd (nativeProcess (scripted_engine 0 [Some ''hi'']) cooperative_runtime
           loaded_bridge None 2))) = []
   \<and> fst (nativeProcess (scripted_engine 0 [Some ''hi'']) cooperative_runtime
           (nativeRelease loaded_bridge) (Some [1, 2]) 2) = Inr (Some [])"
  using nativeProcess_invalid_call [of idle_bridge "Some [1, 2]" 2
      "scripted_engine 0 [Some ''hi'']" cooperative_runtime]
    nativeProcess_invalid_call [of loaded_bridge "Some [1, 2]" 0
      "scripted_engine 0 [Some ''hi'']" cooperative_runtime]
    nativeProcess_invalid_call [of loaded_bridge "Some [1, 2]" "- 1"
      "scripted_engine 0 [Some ''hi'']" cooperative_runtime]
    nativeProcess_invalid_call [of loaded_bridge None 2
      "scripted_engine 0 [Some ''hi'']" cooperative_runtime]
    nativeProcess_invalid_call [of loaded_bridge "Some [1, 2]" 2
      "scripted_engine 0 [Some ''hi'']" cooperative_runtime]
  by (simp add: idle_bridge_def loaded_bridge_def)

section \<open>Samples and the caller's array\<close>

text \<open>
  Claim C5: in a call that reaches the engine, the float buffer handed to
  \<open>whisper_full\<close> has one entry for each of the \<open>length\<close> samples, and the entry at
  index \<open>i\<close> is exactly the sample at index \<open>i\<close> divided by 32768: the single-precision
  division of any 16-bit sample by 32768 is exact. The sample \<open>-32768\<close> gives \<open>-1\<close> and
  the sample 32767 gives \<open>32767 / 32768\<close>.
\<close>

theorem nativeProcess_samples_normalized:
  assumes ctx: "g_ctx st = Some ctx"
    and pos: "0 < sint length_arg"
    and fits: "sint length_arg \<le> int (length arr)"
    and pin: "array_elements_available env"
  shows "(\<exists>wparams pcm.
            calls (fst (snd (nativeProcess eng env st (Some arr) length_arg)))
              = calls st @ [Whisper_full ctx wparams pcm length_arg]
            \<and> length pcm = nat (sint length_arg)
            \<and> (\<forall>i < nat (sint length_arg). pcm ! i = Some (of_int (sint (arr ! i)) / 32768)))
       \<and> float_div (int_to_float (sint (s :: jshort))) (Some 32768)
           = Some (of_int (sint s) / 32768)
       \<and> float_div (int_to_float (sint (- 32768 :: jshort))) (Some 32768) = Some (- 1)
       \<and> float_div (int_to_float (sint (32767 :: jshort))) (Some 32768) = Some (32767 / 32768)"
proof -
  let ?n = "nat (sint length_arg)"
  obtain ret ctx' where run:
    "whisper_full eng ctx (process_wparams eng env) (process_pcm arr length_arg) length_arg
       = (ret, ctx')"
    by (cases "whisper_full eng ctx (process_wparams eng env) (process_pcm arr length_arg)
                 length_arg") blast
  have n: "?n \<le> length arr" using fits by simp
  have "calls (fst (snd (nativeProcess eng env st (Some arr) length_arg)))
          = calls st @ [Whisper_full ctx (process_wparams eng env) (process_pcm arr length_arg)
                          length_arg]"
    by (simp add: nativeProcess_engine_run [OF ctx pos fits pin run])
  moreover have "length (process_pcm arr length_arg) = ?n"
    using n by (simp add: process_pcm_def)
  moreover have "\<forall>i < ?n. process_pcm arr length_arg ! i = Some (of_int (sint (arr ! i)) / 32768)"
    using n by (simp add: process_pcm_def normalized_def)
  ultimately have engine: "\<exists>wparams pcm.
            calls (fst (snd (nativeProcess eng env st (Some arr) length_arg)))
              = calls st @ [Whisper_full ctx wparams pcm length_arg]
            \<and> length pcm = ?n
            \<and> (\<forall>i < ?n. pcm ! i = Some (of_int (sint (arr ! i)) / 32768))"
    by blast
  have exact: "float_div (int_to_float (sint t)) (Some 32768) = Some (of_int (sint t) / 32768)"
    for t :: jshort
    using sample_division_exact [of t] by (simp add: normalized_def)
  have "float_div (int_to_float (sint (- 32768 :: jshort))) (Some 32768) = Some (- 1)"
    using exact [of "- 32768"] by simp
  moreover have "float_div (int_to_float (sint (32767 :: jshort))) (Some 32768)
                   = Some (32767 / 32768)"
    using exact [of 32767] by simp
  ultimately show ?thesis using engine exact [of s] by blast
qed

theorem nativeProcess_samples_normalized_witness:
  "g_ctx loaded_bridge = Some [Some ''old'']
   \<and> 0 < sint (2 :: jint)
   \<and> sint (2 :: jint) \<le> int (length [16384, - 32768 :: jshort])
   \<and> array_elements_available cooperative_runtime
   \<and> (\<exists>wparams pcm.
         calls (fst (snd (nativeProcess (scripted_engine 0 []) cooperative_runtime
                            loaded_bridge (Some [16384, - 32768]) 2)))
           = [Whisper_full [Some ''old''] wparams pcm 2]
         \<and> pcm ! 0 = Some (1 / 2) \<and> pcm ! 1 = Some (- 1))"
proof -
  have h: "g_ctx loaded_bridge = Some [Some ''old'']"
    "0 < sint (2 :: jint)"
    "sint (2 :: jint) \<le> int (length [16384, - 32768 :: jshort])"
    "array_elements_available cooperative_runtime"
    by (simp_all add: loaded_bridge_valid)
  from nativeProcess_samples_normalized [OF h, of "scripted_engine 0 []" 0]
  obtain wparams pcm where
    c: "calls (fst (snd (nativeProcess (scripted_engine 0 []) cooperative_runtime
                            loaded_bridge (Some [16384, - 32768]) 2)))
           = calls loaded_bridge @ [Whisper_full [Some ''old''] wparams pcm 2]"
    and v: "\<forall>i < nat (sint (2 :: jint)).
              pcm ! i = Some (of_int (sint ([16384, - 32768 :: jshort] ! i)) / 32768)"
    by auto
  have "pcm ! 0 = Some (1 / 2)" using v [rule_format, of 0] by simp
  moreover have "pcm ! 1 = Some (- 1)" using v [rule_format, of 1] by simp
  moreover have "calls loaded_bridge = []" by (simp add: loaded_bridge_def)
  ultimately show ?thesis using h c by auto
qed

text \<open>
  Claim C9: the contents of the caller's sample array after a call of \<open>nativeProcess\<close>
  are its contents before the call, on every path: the buffer is only read, and it is
  released with \<open>JNI_ABORT\<close>, which copies nothing back.
\<close>

theorem nativeProcess_array_unchanged:
  "snd (snd (nativeProcess eng env st jPcm length_arg)) = jPcm"
  by (simp add: nativeProcess_def GetShortArrayElements_def ReleaseShortArrayElements_def
      Let_def split: option.splits sum.splits prod.splits)

section \<open>The result of a call that reaches the engine\<close>

text \<open>
  Claim C7: in a call with an installed context, a positive length within the array and
  elements that the runtime hands out, let \<open>ret\<close> be the code that \<open>whisper_full\<close>
  returns and \<open>ctx'\<close> the context it leaves. When \<open>ret\<close> is not zero the result is the
  empty string; when \<open>ret\<close> is zero and no segment is reported the result is the empty
  string; when \<open>ret\<close> is zero and some reported segment has a text that is neither null
  nor empty the result is a string that is not empty.
\<close>

theorem nativeProcess_engine_outcome:
  assumes ctx: "g_ctx st = Some ctx"
    and pos: "0 < sint length_arg"
    and fits: "sint length_arg \<le> int (length arr)"
    and pin: "array_elements_available env"
    and run: "whisper_full eng ctx (process_wparams eng env) (process_pcm arr length_arg) length_arg
                = (ret, ctx')"
  shows "(ret \<noteq> 0 \<longrightarrow> fst (nativeProcess eng env st (Some arr) length_arg) = Inr (Some []))
       \<and> (ret = 0 \<and> whisper_full_n_segments eng ctx' \<le> 0 \<longrightarrow>
            fst (nativeProcess eng env st (Some arr) length_arg) = Inr (Some []))
       \<and> (ret = 0 \<and> (\<exists>i t. 0 \<le> i \<and> i < whisper_full_n_segments eng ctx'
                          \<and> whisper_full_get_segment_text eng ctx' i = Some t \<and> t \<noteq> []) \<longrightarrow>
            (\<exists>transcript. fst (nativeProcess eng env st (Some arr) length_arg)
                            = Inr (Some transcript) \<and> transcript \<noteq> []))"
proof -
  note result = nativeProcess_engine_run [OF ctx pos fits pin run]
  have "fst (nativeProcess eng env st (Some arr) length_arg) = Inr (Some [])" if "ret \<noteq> 0"
    using that by (simp add: result)
  moreover have "fst (nativeProcess eng env st (Some arr) length_arg) = Inr (Some [])"
    if "ret = 0" "whisper_full_n_segments eng ctx' \<le> 0"
    using that by (simp add: result segment_loop_no_segments)
  moreover have "\<exists>transcript. fst (nativeProcess eng env st (Some arr) length_arg)
                            = Inr (Some transcript) \<and> transcript \<noteq> []"
    if "ret = 0" "0 \<le> i" "i < whisper_full_n_segments eng ctx'"
      "whisper_full_get_segment_text eng ctx' i = Some t" "t \<noteq> []" for i t
    using that(1) segment_loop_nonempty [OF that(2-5)] by (simp add: result)
  ultimately show ?thesis by blast
qed

theorem nativeProcess_engine_outcome_witness:
  "g_ctx loaded_bridge = Some [Some ''old'']
   \<and> 0 < sint (1 :: jint)
   \<and> sint (1 :: jint) \<le> int (length [0 :: jshort])
   \<and> array_elements_available cooperative_runtime
   \<and> whisper_full (scripted_engine 0 [Some ''hi''])
        [Some ''old''] (process_wparams (scripted_engine 0 [Some ''hi'']) cooperative_runtime)
        (process_pcm [0] 1) 1 = (0, [Some ''hi''])
   \<and> 0 < whisper_full_n_segments (scripted_engine 0 [Some ''hi'']) [Some ''hi'']
   \<and> whisper_full_get_segment_text (scripted_engine 0 [Some ''hi'']) [Some ''hi''] 0 = Some ''hi''
   \<and> (\<exists>transcript.
         fst (nativeProcess (scripted_engine 0 [Some ''hi'']) cooperative_runtime
                loaded_bridge (Some [0]) 1) = Inr (Some transcript)
         \<and> transcript \<noteq> [])
   \<and> whisper_full (scripted_engine 7 [Some ''hi''])
        [Some ''old''] (process_wparams (scripted_engine 7 [Some ''hi'']) cooperative_runtime)
        (process_pcm [0] 1) 1 = (7, [Some ''hi''])
   \<and> fst (nativeProcess (scripted_engine 7 [Some ''hi'']) cooperative_runtime
             loaded_bridge (Some [0]) 1) = Inr (Some [])
   \<and> whisper_full (scripted_engine 0 [])
        [Some ''old''] (process_wparams (scripted_engine 0 []) cooperative_runtime)
        (process_pcm [0] 1) 1 = (0, [])
   \<and> whisper_full_n_segments (scripted_engine 0 []) [] \<le> 0
   \<and> fst (nativeProcess (scripted_engine 0 []) cooperative_runtime
             loaded_bridge (Some [0]) 1) = Inr (Some [])"
proof -
  have h: "g_ctx loaded_bridge = Some [Some ''old'']"
    "0 < sint (1 :: jint)"
    "sint (1 :: jint) \<le> int (length [0 :: jshort])"
    "array_elements_available cooperative_runtime"
    by (simp_all add: loaded_bridge_valid)
  have ok: "whisper_full (scripted_engine 0 [Some ''hi''])
        [Some ''old''] (process_wparams (scripted_engine 0 [Some ''hi'']) cooperative_runtime)
        (process_pcm [0] 1) 1 = (0, [Some ''hi''])"
    by (rule scripted_engine_run)
  have failed: "whisper_full (scripted_engine 7 [Some ''hi''])
        [Some ''old''] (process_wparams (scripted_engine 7 [Some ''hi'']) cooperative_runtime)
        (process_pcm [0] 1) 1 = (7, [Some ''hi''])"
    by (rule scripted_engine_run)
  have silent: "whisper_full (scripted_engine 0 [])
        [Some ''old''] (process_wparams (scripted_engine 0 []) cooperative_runtime)
        (process_pcm [0] 1) 1 = (0, [])"
    by (rule scripted_engine_run)
  have seg: "0 < whisper_full_n_segments (scripted_engine 0 [Some ''hi'']) [Some ''hi'']"
    "whisper_full_get_segment_text (scripted_engine 0 [Some ''hi'']) [Some ''hi''] 0 = Some ''hi''"
    "whisper_full_n_segments (scripted_engine 0 []) [] \<le> 0"
    by (simp_all add: scripted_engine_def)
  have "\<exists>i t. 0 \<le> i \<and> i < whisper_full_n_segments (scripted_engine 0 [Some ''hi'']) [Some ''hi'']
          \<and> whisper_full_get_segment_text (scripted_engine 0 [Some ''hi'']) [Some ''hi''] i = Some t
          \<and> t \<noteq> []"
    using seg(1,2) by (intro exI [of _ 0] exI [of _ "''hi''"]) simp
  with nativeProcess_engine_outcome [OF h ok]
  have "\<exists>transcript.
         fst (nativeProcess (scripted_engine 0 [Some ''hi'']) cooperative_runtime
                loaded_bridge (Some [0]) 1) = Inr (Some transcript)
         \<and> transcript \<noteq> []"
    by blast
  moreover from nativeProcess_engine_outcome [OF h failed]
  have "fst (nativeProcess (scripted_engine 7 [Some ''hi'']) cooperative_runtime
             loaded_bridge (Some [0]) 1) = Inr (Some [])"
    by simp
  moreover from nativeProcess_engine_outcome [OF h silent] seg(3)
  have "fst (nativeProcess (scripted_engine 0 []) cooperative_runtime
             loaded_bridge (Some [0]) 1) = Inr (Some [])"
    by simp
  ultimately show ?thesis using h ok failed silent seg by blast
qed

text \<open>
  Claim C1 says that the transcript is the join of the texts that are neither null nor
  empty, with no leading separator. The loop writes the separator before a text
  whenever the index of its segment is positive, also when nothing has been written
  yet: for an engine that reports an empty text and then \<open>hi\<close>, \<open>nativeProcess\<close>
  returns \<open>hi\<close> with a space in front, where the transcript of the specification is
  \<open>hi\<close>.
\<close>

theorem nativeProcess_leading_separator:
  "fst (nativeProcess (scripted_engine 0 [Some [], Some ''hi''])
          cooperative_runtime loaded_bridge (Some [0]) 1)
     = Inr (Some '' hi'')
   \<and> spec_transcript [Some [], Some ''hi''] = ''hi''"
proof -
  let ?segs = "[Some [], Some ''hi'']"
  let ?eng = "scripted_engine 0 ?segs"
  have run: "whisper_full ?eng [Some ''old''] (process_wparams ?eng cooperative_runtime)
               (process_pcm [0] 1) 1 = (0, ?segs)"
    by (rule scripted_engine_run)
  have "fst (nativeProcess ?eng cooperative_runtime loaded_bridge (Some [0]) 1)
          = Inr (Some (segment_loop ?eng ?segs (whisper_full_n_segments ?eng ?segs) 0 []))"
    using nativeProcess_engine_run [OF loaded_bridge_valid(1) _ _ loaded_bridge_valid(2) run]
    by simp
  moreover have "whisper_full_n_segments ?eng ?segs = 2" by (simp add: scripted_engine_def)
  moreover have "[0..2 - 1] = [0, 1 :: int]" by (simp add: upto.simps)
  then have "segment_loop ?eng ?segs 2 0 [] = '' hi''"
    by (simp add: segment_loop_pieces segment_piece_def scripted_engine_def)
  ultimately show ?thesis by (simp add: spec_transcript_def)
qed

section \<open>Every path returns a string\<close>







end
